theory Spec2Isabelle
  imports Main
begin

section \<open>Data model\<close>

text \<open>
  A Go \<^verbatim>\<open>map[string]string\<close> (\<^verbatim>\<open>labels.Set\<close>, \<^verbatim>\<open>ObjectMeta.Labels\<close>,
  \<^verbatim>\<open>Spec.Selector\<close>). \<open>None\<close> is the nil map, \<open>Some kvs\<close> a non-nil map whose
  entries are \<open>kvs\<close>, one pair per key; a key is read with \<open>map_of\<close>.
\<close>

type_synonym LabelSet = "(string \<times> string) list option"

definition len :: "LabelSet \<Rightarrow> nat" where
  "len m = (case m of None \<Rightarrow> 0 | Some kvs \<Rightarrow> length kvs)"

definition lookup :: "LabelSet \<Rightarrow> string \<Rightarrow> string option" where
  "lookup m k = (case m of None \<Rightarrow> None | Some kvs \<Rightarrow> map_of kvs k)"

record ObjectMeta =
  Name :: string
  Namespace :: string
  Labels :: LabelSet

text \<open>
  The three object kinds of \<^verbatim>\<open>listers_core.go\<close> that the resolvers touch. Each embeds
  an \<^verbatim>\<open>ObjectMeta\<close>; services and replication controllers carry \<^verbatim>\<open>Spec.Selector\<close>.
\<close>

record Pod =
  PodObjectMeta :: ObjectMeta

record Service =
  ServiceObjectMeta :: ObjectMeta
  ServiceSpecSelector :: LabelSet

record ReplicationController =
  RCObjectMeta :: ObjectMeta
  RCSpecSelector :: LabelSet

text \<open>A value of type \<^verbatim>\<open>interface{}\<close> held by the store: the dynamic kind is the constructor.\<close>

datatype object =
  PodObj Pod
| ServiceObj Service
| ReplicationControllerObj ReplicationController

text \<open>
  Errors are values. \<open>NotFound r n\<close> is \<^verbatim>\<open>errors.NewNotFound(api.Resource(r), n)\<close>;
  \<open>NoLabelsOnSubject n\<close> is
  \<^verbatim>\<open>fmt.Errorf("no controllers found for pod %v because it has no labels", n)\<close>;
  \<open>NoMatchingOwner n ns ls\<close> is
  \<^verbatim>\<open>fmt.Errorf("could not find controller for pod %s in namespace %s with labels: %v", n, ns, ls)\<close>;
  \<open>StoreUnavailable\<close> stands for an error produced by the store itself.
\<close>

datatype error =
  StoreUnavailable string
| NotFound string string
| NoLabelsOnSubject string
| NoMatchingOwner string string LabelSet

text \<open>
  A call either panics (a failed type assertion \<^verbatim>\<open>m.(*v1.T)\<close>) or returns. The Go
  result pair \<^verbatim>\<open>(ret, err)\<close> is a pair whose second component is \<open>None\<close> for a nil
  error; a nil slice is the empty list.
\<close>

datatype 'a outcome = Panic | Return 'a

section \<open>Selectors (package labels)\<close>

text \<open>
  Modelled from the spec: package \<^verbatim>\<open>labels\<close> is not among the sources. The spec has
  selectors as equality-based label predicates with \<^verbatim>\<open>Matches(labels)\<close> and
  \<^verbatim>\<open>Empty()\<close> (true iff zero requirements), an empty selector matching everything.
  A selector is the list of its requirements \<open>key = value\<close>.
\<close>

type_synonym Selector = "(string \<times> string) list"

text \<open>Modelled from the spec: \<^verbatim>\<open>labels.Everything()\<close>, the match-everything selector.\<close>

definition Everything :: Selector where
  "Everything = []"

text \<open>
  Modelled from the spec: \<^verbatim>\<open>labels.Set(m).AsSelectorPreValidated()\<close>, one requirement
  per entry. A nil map gives zero requirements, which is what the guards in
  \<^verbatim>\<open>GetPodServices\<close> and \<^verbatim>\<open>GetPodControllers\<close> ("nil or empty selector ... should
  match nothing, not everything") protect against.
\<close>

definition AsSelectorPreValidated :: "LabelSet \<Rightarrow> Selector" where
  "AsSelectorPreValidated ls = (case ls of None \<Rightarrow> [] | Some kvs \<Rightarrow> kvs)"

text \<open>Modelled from the spec: \<^verbatim>\<open>Selector.Empty()\<close>, true iff zero requirements.\<close>

definition Empty :: "Selector \<Rightarrow> bool" where
  "Empty selector = (length selector = 0)"

text \<open>Modelled from the spec: \<^verbatim>\<open>Selector.Matches(labels)\<close>, every requirement holds.\<close>

definition Matches :: "Selector \<Rightarrow> LabelSet \<Rightarrow> bool" where
  "Matches selector ls = list_all (\<lambda>(k, v). lookup ls k = Some v) selector"

section \<open>The object store (package cache)\<close>

text \<open>
  Modelled from the spec: the \<^verbatim>\<open>cache.Indexer\<close> interface is declared outside the
  sources. The spec has it as a mapping from composite key to object with exact-key
  lookup \<^verbatim>\<open>GetByKey(key) -> (object, found, err)\<close>, a full snapshot listing and a
  namespace-indexed listing. The state is the key/object entries in snapshot order, and,
  for each of the three capabilities, the error it reports when the store fails. An
  enumeration that fails has handed over \<open>deliveredBeforeErr\<close> objects by then, so its
  error comes with a partial list.
\<close>

record Indexer =
  entries :: "(string \<times> object) list"
  getByKeyErr :: "error option"
  listErr :: "error option"
  indexErr :: "error option"
  deliveredBeforeErr :: nat

text \<open>Modelled from the spec: \<^verbatim>\<open>meta.Accessor\<close>, the metadata every object carries.\<close>

fun Accessor :: "object \<Rightarrow> ObjectMeta" where
  "Accessor (PodObj p) = PodObjectMeta p"
| "Accessor (ServiceObj s) = ServiceObjectMeta s"
| "Accessor (ReplicationControllerObj rc) = RCObjectMeta rc"

text \<open>
  Modelled from the spec: \<^verbatim>\<open>Indexer.GetByKey\<close>. The pair (item, exists) is an option.
\<close>

definition GetByKey :: "Indexer \<Rightarrow> string \<Rightarrow> object option \<times> error option" where
  "GetByKey ix key =
     (case getByKeyErr ix of
        Some err \<Rightarrow> (None, Some err)
      | None \<Rightarrow> (map_of (entries ix) key, None))"

text \<open>Modelled from the spec: the full snapshot listing of the store.\<close>

definition Indexer_List :: "Indexer \<Rightarrow> object list \<times> error option" where
  "Indexer_List ix =
     (case listErr ix of
        Some err \<Rightarrow> (take (deliveredBeforeErr ix) (map snd (entries ix)), Some err)
      | None \<Rightarrow> (map snd (entries ix), None))"

text \<open>
  Modelled from the spec: \<^verbatim>\<open>ListByNamespaceIndex(namespace)\<close>, the snapshot restricted
  to one namespace.
\<close>

definition ListByNamespaceIndex :: "Indexer \<Rightarrow> string \<Rightarrow> object list \<times> error option" where
  "ListByNamespaceIndex ix ns =
     (case indexErr ix of
        Some err \<Rightarrow>
          (take (deliveredBeforeErr ix)
             (filter (\<lambda>m. Namespace (Accessor m) = ns) (map snd (entries ix))), Some err)
      | None \<Rightarrow> (filter (\<lambda>m. Namespace (Accessor m) = ns) (map snd (entries ix)), None))"

text \<open>
  Modelled from the spec: \<^verbatim>\<open>Indexer.Index(cache.NamespaceIndex, key)\<close>, the namespace
  index queried with a probe object of which only the namespace is read.
\<close>

datatype IndexName = NamespaceIndex

definition Index :: "Indexer \<Rightarrow> IndexName \<Rightarrow> object \<Rightarrow> object list \<times> error option" where
  "Index ix indexName key =
     (case indexName of NamespaceIndex \<Rightarrow> ListByNamespaceIndex ix (Namespace (Accessor key)))"

text \<open>
  The callback \<^verbatim>\<open>appendFn\<close> of the listing helpers closes over the result slice
  \<^verbatim>\<open>ret\<close>; here it takes the slice and returns the new one, or panics.
\<close>

type_synonym 'r AppendFunc = "object \<Rightarrow> 'r \<Rightarrow> 'r outcome"

text \<open>
  Modelled from the spec: the loop shared by \<^verbatim>\<open>cache.ListAll\<close> and
  \<^verbatim>\<open>cache.ListAllByNamespace\<close>, which keeps the entries whose labels satisfy the
  selector and hands each to the callback. The helpers receive no kind, so every entry
  that satisfies the selector reaches the callback.
\<close>

fun listLoop :: "Selector \<Rightarrow> 'r AppendFunc \<Rightarrow> object list \<Rightarrow> 'r \<Rightarrow> 'r outcome" where
  "listLoop selector appendFn [] ret = Return ret"
| "listLoop selector appendFn (m # ms) ret =
     (if Matches selector (Labels (Accessor m))
      then (case appendFn m ret of
              Panic \<Rightarrow> Panic
            | Return ret' \<Rightarrow> listLoop selector appendFn ms ret')
      else listLoop selector appendFn ms ret)"

text \<open>
  Modelled from the spec: \<^verbatim>\<open>cache.ListAll(store, selector, appendFn)\<close>. It snapshots
  the whole store and reports an error only when the store fails to enumerate; the
  objects enumerated before the failure have been handed to the callback by then.
\<close>

definition ListAll :: "Indexer \<Rightarrow> Selector \<Rightarrow> 'r AppendFunc \<Rightarrow> 'r \<Rightarrow> ('r \<times> error option) outcome" where
  "ListAll ix selector appendFn ret =
     (case Indexer_List ix of
        (items, Some err) \<Rightarrow>
          (case listLoop selector appendFn items ret of
             Panic \<Rightarrow> Panic
           | Return ret' \<Rightarrow> Return (ret', Some err))
      | (items, None) \<Rightarrow>
          (case listLoop selector appendFn items ret of
             Panic \<Rightarrow> Panic
           | Return ret' \<Rightarrow> Return (ret', None)))"

text \<open>
  Modelled from the spec: \<^verbatim>\<open>cache.ListAllByNamespace(indexer, namespace, selector, appendFn)\<close>,
  the same filtering over the namespace-indexed enumeration.
\<close>

definition ListAllByNamespace ::
  "Indexer \<Rightarrow> string \<Rightarrow> Selector \<Rightarrow> 'r AppendFunc \<Rightarrow> 'r \<Rightarrow> ('r \<times> error option) outcome" where
  "ListAllByNamespace ix ns selector appendFn ret =
     (case ListByNamespaceIndex ix ns of
        (items, Some err) \<Rightarrow>
          (case listLoop selector appendFn items ret of
             Panic \<Rightarrow> Panic
           | Return ret' \<Rightarrow> Return (ret', Some err))
      | (items, None) \<Rightarrow>
          (case listLoop selector appendFn items ret of
             Panic \<Rightarrow> Panic
           | Return ret' \<Rightarrow> Return (ret', None)))"

section \<open>Typed listers\<close>

text \<open>
  A lister \<^verbatim>\<open>StoreToXLister{Indexer}\<close> is its indexer; a namespacer
  \<^verbatim>\<open>storeXsNamespacer{indexer, namespace}\<close> is passed as its two fields.
\<close>

subsection \<open>Pods\<close>

text \<open>The closure \<^verbatim>\<open>func(m interface{}) { ret = append(ret, m.(*v1.Pod)) }\<close>.\<close>

definition appendPod :: "Pod list AppendFunc" where
  "appendPod m ret = (case m of PodObj p \<Rightarrow> Return (ret @ [p]) | _ \<Rightarrow> Panic)"

definition StoreToPodLister_List :: "Indexer \<Rightarrow> Selector \<Rightarrow> (Pod list \<times> error option) outcome" where
  "StoreToPodLister_List s selector = ListAll s selector appendPod []"

definition storePodsNamespacer_List ::
  "Indexer \<Rightarrow> string \<Rightarrow> Selector \<Rightarrow> (Pod list \<times> error option) outcome" where
  "storePodsNamespacer_List indexer namespace selector =
     ListAllByNamespace indexer namespace selector appendPod []"

definition storePodsNamespacer_Get ::
  "Indexer \<Rightarrow> string \<Rightarrow> string \<Rightarrow> (Pod option \<times> error option) outcome" where
  "storePodsNamespacer_Get indexer namespace name =
     (case GetByKey indexer (namespace @ ''/'' @ name) of
        (obj, Some err) \<Rightarrow> Return (None, Some err)
      | (None, None) \<Rightarrow> Return (None, Some (NotFound ''pod'' name))
      | (Some obj, None) \<Rightarrow>
          (case obj of PodObj p \<Rightarrow> Return (Some p, None) | _ \<Rightarrow> Panic))"

subsection \<open>Services\<close>

text \<open>The closure \<^verbatim>\<open>func(m interface{}) { ret = append(ret, m.(*v1.Service)) }\<close>.\<close>

definition appendService :: "Service list AppendFunc" where
  "appendService m ret = (case m of ServiceObj svc \<Rightarrow> Return (ret @ [svc]) | _ \<Rightarrow> Panic)"

definition StoreToServiceLister_List ::
  "Indexer \<Rightarrow> Selector \<Rightarrow> (Service list \<times> error option) outcome" where
  "StoreToServiceLister_List s selector = ListAll s selector appendService []"

definition storeServicesNamespacer_List ::
  "Indexer \<Rightarrow> string \<Rightarrow> Selector \<Rightarrow> (Service list \<times> error option) outcome" where
  "storeServicesNamespacer_List indexer namespace selector =
     ListAllByNamespace indexer namespace selector appendService []"

definition storeServicesNamespacer_Get ::
  "Indexer \<Rightarrow> string \<Rightarrow> string \<Rightarrow> (Service option \<times> error option) outcome" where
  "storeServicesNamespacer_Get indexer namespace name =
     (case GetByKey indexer (namespace @ ''/'' @ name) of
        (obj, Some err) \<Rightarrow> Return (None, Some err)
      | (None, None) \<Rightarrow> Return (None, Some (NotFound ''service'' name))
      | (Some obj, None) \<Rightarrow>
          (case obj of ServiceObj svc \<Rightarrow> Return (Some svc, None) | _ \<Rightarrow> Panic))"

text \<open>
  The loop of \<^verbatim>\<open>GetPodServices\<close> over \<^verbatim>\<open>allServices\<close>, with the result slice
  \<^verbatim>\<open>services\<close> passed along.
\<close>

fun servicesLoop :: "Pod \<Rightarrow> Service list \<Rightarrow> Service list \<Rightarrow> Service list" where
  "servicesLoop pod [] services = services"
| "servicesLoop pod (service # allServices) services =
     (if ServiceSpecSelector service = None
      then servicesLoop pod allServices services
      else (let selector = AsSelectorPreValidated (ServiceSpecSelector service)
            in if Matches selector (Labels (PodObjectMeta pod))
               then servicesLoop pod allServices (services @ [service])
               else servicesLoop pod allServices services))"

definition GetPodServices :: "Indexer \<Rightarrow> Pod \<Rightarrow> (Service list \<times> error option) outcome" where
  "GetPodServices s pod =
     (case storeServicesNamespacer_List s (Namespace (PodObjectMeta pod)) Everything of
        Panic \<Rightarrow> Panic
      | Return (allServices, Some err) \<Rightarrow> Return ([], Some err)
      | Return (allServices, None) \<Rightarrow> Return (servicesLoop pod allServices [], None))"

subsection \<open>Replication controllers\<close>

text \<open>
  The loop of \<^verbatim>\<open>GetPodControllers\<close> over \<^verbatim>\<open>items\<close>; the type assertion
  \<^verbatim>\<open>m.(*v1.ReplicationController)\<close> panics on any other kind.
\<close>

fun controllersLoop ::
  "Pod \<Rightarrow> object list \<Rightarrow> ReplicationController list \<Rightarrow> ReplicationController list outcome" where
  "controllersLoop pod [] controllers = Return controllers"
| "controllersLoop pod (m # items) controllers =
     (case m of
        ReplicationControllerObj rc \<Rightarrow>
          (let selector = AsSelectorPreValidated (RCSpecSelector rc)
           in if Empty selector \<or> \<not> Matches selector (Labels (PodObjectMeta pod))
              then controllersLoop pod items controllers
              else controllersLoop pod items (controllers @ [rc]))
      | _ \<Rightarrow> Panic)"

definition GetPodControllers ::
  "Indexer \<Rightarrow> Pod \<Rightarrow> (ReplicationController list \<times> error option) outcome" where
  "GetPodControllers s pod =
     (if len (Labels (PodObjectMeta pod)) = 0
      then Return ([], Some (NoLabelsOnSubject (Name (PodObjectMeta pod))))
      else (let key = ReplicationControllerObj
                        \<lparr>RCObjectMeta = \<lparr>Name = [], Namespace = Namespace (PodObjectMeta pod),
                                         Labels = None\<rparr>,
                         RCSpecSelector = None\<rparr>
            in case Index s NamespaceIndex key of
                 (items, Some err) \<Rightarrow> Return ([], Some err)
               | (items, None) \<Rightarrow>
                   (case controllersLoop pod items [] of
                      Panic \<Rightarrow> Panic
                    | Return controllers \<Rightarrow>
                        if length controllers = 0
                        then Return (controllers,
                               Some (NoMatchingOwner (Name (PodObjectMeta pod))
                                       (Namespace (PodObjectMeta pod)) (Labels (PodObjectMeta pod))))
                        else Return (controllers, None))))"

section \<open>Vocabulary of the specification\<close>

text \<open>The dynamic kind of a stored value.\<close>

fun isPod :: "object \<Rightarrow> bool" where
  "isPod (PodObj p) = True"
| "isPod _ = False"

fun isService :: "object \<Rightarrow> bool" where
  "isService (ServiceObj svc) = True"
| "isService _ = False"

fun isReplicationController :: "object \<Rightarrow> bool" where
  "isReplicationController (ReplicationControllerObj rc) = True"
| "isReplicationController _ = False"

text \<open>The objects of one kind among a list of stored values, in order.\<close>

fun podsOf :: "object list \<Rightarrow> Pod list" where
  "podsOf [] = []"
| "podsOf (PodObj p # ms) = p # podsOf ms"
| "podsOf (_ # ms) = podsOf ms"

fun servicesOf :: "object list \<Rightarrow> Service list" where
  "servicesOf [] = []"
| "servicesOf (ServiceObj svc # ms) = svc # servicesOf ms"
| "servicesOf (_ # ms) = servicesOf ms"

fun controllersOf :: "object list \<Rightarrow> ReplicationController list" where
  "controllersOf [] = []"
| "controllersOf (ReplicationControllerObj rc # ms) = rc # controllersOf ms"
| "controllersOf (_ # ms) = controllersOf ms"

text \<open>The contents of the store, and the part of a listing in one namespace.\<close>

definition snapshot :: "Indexer \<Rightarrow> object list" where
  "snapshot ix = map snd (entries ix)"

definition inNamespace :: "string \<Rightarrow> object list \<Rightarrow> object list" where
  "inNamespace ns ms = filter (\<lambda>m. Namespace (Accessor m) = ns) ms"

text \<open>The objects whose labels satisfy a selector.\<close>

definition satisfying :: "Selector \<Rightarrow> object list \<Rightarrow> object list" where
  "satisfying selector ms = filter (\<lambda>m. Matches selector (Labels (Accessor m))) ms"

text \<open>
  The contract stated at the head of \<^verbatim>\<open>listers_core.go\<close>: "The Stores must contain
  only the expected type".
\<close>

definition holdsOnly :: "(object \<Rightarrow> bool) \<Rightarrow> Indexer \<Rightarrow> bool" where
  "holdsOnly isKind ix = list_all isKind (snapshot ix)"

text \<open>The selector derived from a declared selector field matches the pod's labels.\<close>

definition selects :: "LabelSet \<Rightarrow> Pod \<Rightarrow> bool" where
  "selects sel pod = Matches (AsSelectorPreValidated sel) (Labels (PodObjectMeta pod))"

text \<open>
  Kind A of the specification: the services of the pod's namespace whose selector field
  is present and whose selector matches the pod's labels.
\<close>

definition selectingServices :: "Indexer \<Rightarrow> Pod \<Rightarrow> Service list" where
  "selectingServices ix pod =
     filter (\<lambda>svc. ServiceSpecSelector svc \<noteq> None \<and> selects (ServiceSpecSelector svc) pod)
       (servicesOf (inNamespace (Namespace (PodObjectMeta pod)) (snapshot ix)))"

text \<open>
  Kind B of the specification: the controllers of the pod's namespace whose derived
  selector is not empty and matches the pod's labels.
\<close>

definition matchingControllers :: "Indexer \<Rightarrow> Pod \<Rightarrow> ReplicationController list" where
  "matchingControllers ix pod =
     filter (\<lambda>rc. \<not> Empty (AsSelectorPreValidated (RCSpecSelector rc)) \<and>
                  selects (RCSpecSelector rc) pod)
       (controllersOf (inNamespace (Namespace (PodObjectMeta pod)) (snapshot ix)))"

text \<open>A call returned with exactly this error.\<close>

definition failsWith :: "('a \<times> error option) outcome \<Rightarrow> error \<Rightarrow> bool" where
  "failsWith r e = (case r of Panic \<Rightarrow> False | Return (ret, err) \<Rightarrow> err = Some e)"

section \<open>Scenario objects\<close>

text \<open>The objects of the scenarios of the specification, and stores that hold them.\<close>

abbreviation pod_p0 :: Pod where
  "pod_p0 \<equiv> \<lparr>PodObjectMeta = \<lparr>Name = ''p0'', Namespace = ''ns1'', Labels = None\<rparr>\<rparr>"

abbreviation pod_p1 :: Pod where
  "pod_p1 \<equiv> \<lparr>PodObjectMeta =
     \<lparr>Name = ''p1'', Namespace = ''ns1'', Labels = Some [(''app'', ''x'')]\<rparr>\<rparr>"

abbreviation pod_p2 :: Pod where
  "pod_p2 \<equiv> \<lparr>PodObjectMeta =
     \<lparr>Name = ''p2'', Namespace = ''ns2'', Labels = Some [(''app'', ''x'')]\<rparr>\<rparr>"

abbreviation pod_p3 :: Pod where
  "pod_p3 \<equiv> \<lparr>PodObjectMeta =
     \<lparr>Name = ''p3'', Namespace = ''ns1'', Labels = Some [(''app'', ''z'')]\<rparr>\<rparr>"

abbreviation svcA :: Service where
  "svcA \<equiv> \<lparr>ServiceObjectMeta = \<lparr>Name = ''svcA'', Namespace = ''ns1'', Labels = None\<rparr>,
            ServiceSpecSelector = Some [(''app'', ''x'')]\<rparr>"

abbreviation svcB :: Service where
  "svcB \<equiv> \<lparr>ServiceObjectMeta = \<lparr>Name = ''svcB'', Namespace = ''ns1'', Labels = None\<rparr>,
            ServiceSpecSelector = None\<rparr>"

abbreviation svcC :: Service where
  "svcC \<equiv> \<lparr>ServiceObjectMeta = \<lparr>Name = ''svcC'', Namespace = ''ns2'', Labels = None\<rparr>,
            ServiceSpecSelector = Some [(''app'', ''x'')]\<rparr>"

abbreviation svcE :: Service where
  "svcE \<equiv> \<lparr>ServiceObjectMeta = \<lparr>Name = ''svcE'', Namespace = ''ns1'', Labels = None\<rparr>,
            ServiceSpecSelector = Some []\<rparr>"

abbreviation rcA :: ReplicationController where
  "rcA \<equiv> \<lparr>RCObjectMeta = \<lparr>Name = ''rcA'', Namespace = ''ns1'', Labels = None\<rparr>,
           RCSpecSelector = Some [(''app'', ''z'')]\<rparr>"

abbreviation rcB :: ReplicationController where
  "rcB \<equiv> \<lparr>RCObjectMeta = \<lparr>Name = ''rcB'', Namespace = ''ns1'', Labels = None\<rparr>,
           RCSpecSelector = Some [(''app'', ''z'')]\<rparr>"

abbreviation rcE :: ReplicationController where
  "rcE \<equiv> \<lparr>RCObjectMeta = \<lparr>Name = ''rcE'', Namespace = ''ns1'', Labels = None\<rparr>,
           RCSpecSelector = Some []\<rparr>"

abbreviation rcN :: ReplicationController where
  "rcN \<equiv> \<lparr>RCObjectMeta = \<lparr>Name = ''rcN'', Namespace = ''ns1'', Labels = None\<rparr>,
           RCSpecSelector = None\<rparr>"

abbreviation pod_store :: Indexer where
  "pod_store \<equiv> \<lparr>entries = [(''ns1/p1'', PodObj pod_p1), (''ns2/p2'', PodObj pod_p2),
                             (''ns1/p3'', PodObj pod_p3)],
                  getByKeyErr = None, listErr = None, indexErr = None,
                 deliveredBeforeErr = 0\<rparr>"

abbreviation service_store :: Indexer where
  "service_store \<equiv> \<lparr>entries = [(''ns1/svcA'', ServiceObj svcA), (''ns1/svcB'', ServiceObj svcB),
                                 (''ns2/svcC'', ServiceObj svcC), (''ns1/svcE'', ServiceObj svcE)],
                      getByKeyErr = None, listErr = None, indexErr = None,
                 deliveredBeforeErr = 0\<rparr>"

abbreviation rc_store :: Indexer where
  "rc_store \<equiv> \<lparr>entries = [(''ns1/rcE'', ReplicationControllerObj rcE),
                            (''ns1/rcA'', ReplicationControllerObj rcA),
                            (''ns1/rcN'', ReplicationControllerObj rcN),
                            (''ns1/rcB'', ReplicationControllerObj rcB)],
                 getByKeyErr = None, listErr = None, indexErr = None,
                 deliveredBeforeErr = 0\<rparr>"

abbreviation failing_store :: Indexer where
  "failing_store \<equiv> \<lparr>entries = [(''ns1/p1'', PodObj pod_p1)],
                      getByKeyErr = Some (StoreUnavailable ''down''),
                      listErr = Some (StoreUnavailable ''down''),
                      indexErr = Some (StoreUnavailable ''down''),
                      deliveredBeforeErr = 0\<rparr>"

abbreviation failing_service_store :: Indexer where
  "failing_service_store \<equiv>
     \<lparr>entries = [(''ns1/svcA'', ServiceObj svcA), (''ns1/svcB'', ServiceObj svcB),
                 (''ns2/svcC'', ServiceObj svcC), (''ns1/svcE'', ServiceObj svcE)],
      getByKeyErr = None, listErr = None, indexErr = Some (StoreUnavailable ''down''),
      deliveredBeforeErr = 2\<rparr>"

abbreviation failing_rc_store :: Indexer where
  "failing_rc_store \<equiv>
     \<lparr>entries = [(''ns1/rcE'', ReplicationControllerObj rcE),
                 (''ns1/rcA'', ReplicationControllerObj rcA),
                 (''ns1/rcN'', ReplicationControllerObj rcN),
                 (''ns1/rcB'', ReplicationControllerObj rcB)],
      getByKeyErr = None, listErr = None, indexErr = Some (StoreUnavailable ''down''),
      deliveredBeforeErr = 2\<rparr>"

abbreviation mixed_store :: Indexer where
  "mixed_store \<equiv> \<lparr>entries = [(''ns1/p1'', PodObj pod_p1), (''ns1/svcA'', ServiceObj svcA)],
                    getByKeyErr = None, listErr = None, indexErr = None,
                 deliveredBeforeErr = 0\<rparr>"

section \<open>Facts about the model\<close>

lemma Matches_Everything [simp]: "Matches Everything ls"
  by (simp add: Matches_def Everything_def)

lemma satisfying_Everything [simp]: "satisfying Everything ms = ms"
  by (simp add: satisfying_def)

lemma derived_selector_Empty:
  "Empty (AsSelectorPreValidated ls) \<longleftrightarrow> ls = None \<or> ls = Some []"
  by (cases ls) (simp_all add: Empty_def AsSelectorPreValidated_def)

lemma ListByNamespaceIndex_ok:
  "indexErr ix = None \<Longrightarrow> ListByNamespaceIndex ix ns = (inNamespace ns (snapshot ix), None)"
  by (simp add: ListByNamespaceIndex_def inNamespace_def snapshot_def)

lemma list_all_inNamespace: "list_all P ms \<Longrightarrow> list_all P (inNamespace ns ms)"
  by (simp add: inNamespace_def list_all_iff)

lemma holdsOnly_inNamespace:
  "holdsOnly isKind ix \<Longrightarrow> list_all isKind (inNamespace ns (snapshot ix))"
  by (simp add: holdsOnly_def list_all_inNamespace)

subsection \<open>The listing loop\<close>

lemma appendPod_simps [simp]:
  "appendPod (PodObj p) ret = Return (ret @ [p])"
  "appendPod (ServiceObj svc) ret = Panic"
  "appendPod (ReplicationControllerObj rc) ret = Panic"
  by (simp_all add: appendPod_def)

lemma appendService_simps [simp]:
  "appendService (ServiceObj svc) ret = Return (ret @ [svc])"
  "appendService (PodObj p) ret = Panic"
  "appendService (ReplicationControllerObj rc) ret = Panic"
  by (simp_all add: appendService_def)

text \<open>
  The loop returns exactly when no entry of a foreign kind satisfies the selector, and
  then it has appended the pods that satisfy it.
\<close>

lemma listLoop_appendPod_skips:
  "list_all (\<lambda>m. isPod m \<or> \<not> Matches selector (Labels (Accessor m))) ms \<Longrightarrow>
   listLoop selector appendPod ms ret = Return (ret @ podsOf (satisfying selector ms))"
proof (induction ms arbitrary: ret)
  case Nil
  then show ?case by (simp add: satisfying_def)
next
  case (Cons m ms)
  then have rest: "\<And>r. listLoop selector appendPod ms r = Return (r @ podsOf (satisfying selector ms))"
    by simp
  show ?case
  proof (cases "Matches selector (Labels (Accessor m))")
    case True
    with Cons.prems obtain p where "m = PodObj p" by (cases m) auto
    with True rest show ?thesis by (simp add: satisfying_def)
  next
    case False
    with rest show ?thesis by (cases m) (simp_all add: satisfying_def)
  qed
qed

lemma listLoop_appendPod:
  assumes "list_all isPod ms"
  shows "listLoop selector appendPod ms ret = Return (ret @ podsOf (satisfying selector ms))"
proof -
  from assms have "list_all (\<lambda>m. isPod m \<or> \<not> Matches selector (Labels (Accessor m))) ms"
    by (simp add: list_all_iff)
  then show ?thesis by (rule listLoop_appendPod_skips)
qed

lemma listLoop_appendPod_Panic:
  "list_ex (\<lambda>m. \<not> isPod m \<and> Matches selector (Labels (Accessor m))) ms \<Longrightarrow>
   listLoop selector appendPod ms ret = Panic"
proof (induction ms arbitrary: ret)
  case Nil
  then show ?case by simp
next
  case (Cons m ms)
  then show ?case by (cases m) auto
qed

lemma listLoop_appendService:
  "list_all isService ms \<Longrightarrow>
   listLoop selector appendService ms ret = Return (ret @ servicesOf (satisfying selector ms))"
proof (induction ms arbitrary: ret)
  case Nil
  then show ?case by (simp add: satisfying_def)
next
  case (Cons m ms)
  then obtain svc where "m = ServiceObj svc" by (cases m) auto
  with Cons show ?case by (simp add: satisfying_def)
qed

lemma podsOf_inNamespace:
  "podsOf (satisfying selector (inNamespace ns ms)) =
   filter (\<lambda>p. Namespace (PodObjectMeta p) = ns) (podsOf (satisfying selector ms))"
  by (induction ms rule: podsOf.induct) (simp_all add: satisfying_def inNamespace_def)

lemma servicesOf_mem: "ServiceObj c \<in> set ms \<Longrightarrow> c \<in> set (servicesOf ms)"
  by (induction ms rule: servicesOf.induct) auto

subsection \<open>The resolver loops\<close>

lemma servicesLoop_filter:
  "servicesLoop pod allServices services =
   services @ filter (\<lambda>svc. ServiceSpecSelector svc \<noteq> None \<and> selects (ServiceSpecSelector svc) pod)
                allServices"
  by (induction allServices arbitrary: services) (simp_all add: selects_def)

lemma controllersLoop_filter:
  "list_all isReplicationController items \<Longrightarrow>
   controllersLoop pod items controllers =
   Return (controllers @
           filter (\<lambda>rc. \<not> Empty (AsSelectorPreValidated (RCSpecSelector rc)) \<and>
                        selects (RCSpecSelector rc) pod)
             (controllersOf items))"
proof (induction items arbitrary: controllers)
  case Nil
  then show ?case by simp
next
  case (Cons m items)
  then obtain rc where "m = ReplicationControllerObj rc" by (cases m) auto
  with Cons show ?case by (simp add: selects_def)
qed

text \<open>Whatever the kinds in the listing: a controller the loop adds has a non-empty selector.\<close>

lemma controllersLoop_sound:
  "controllersLoop pod items controllers = Return cs \<Longrightarrow> c \<in> set cs \<Longrightarrow>
   c \<in> set controllers \<or> \<not> Empty (AsSelectorPreValidated (RCSpecSelector c))"
proof (induction items arbitrary: controllers)
  case Nil
  then show ?case by simp
next
  case (Cons m items)
  show ?case
  proof (cases m)
    case (ReplicationControllerObj rc)
    show ?thesis
    proof (cases "Empty (AsSelectorPreValidated (RCSpecSelector rc)) \<or>
                  \<not> Matches (AsSelectorPreValidated (RCSpecSelector rc))
                      (Labels (PodObjectMeta pod))")
      case True
      with Cons.prems ReplicationControllerObj
      have "controllersLoop pod items controllers = Return cs" by (simp add: Let_def)
      from Cons.IH [OF this Cons.prems(2)] show ?thesis .
    next
      case False
      with Cons.prems ReplicationControllerObj
      have "controllersLoop pod items (controllers @ [rc]) = Return cs" by (simp add: Let_def)
      from Cons.IH [OF this Cons.prems(2)] False show ?thesis by auto
    qed
  qed (use Cons.prems in simp_all)
qed

subsection \<open>The resolvers on a store that keeps its contract\<close>

lemma storeServicesNamespacer_List_ok:
  assumes "indexErr s = None" and "holdsOnly isService s"
  shows "storeServicesNamespacer_List s ns selector =
         Return (servicesOf (satisfying selector (inNamespace ns (snapshot s))), None)"
  using assms
  by (simp add: storeServicesNamespacer_List_def ListAllByNamespace_def ListByNamespaceIndex_ok
      listLoop_appendService holdsOnly_inNamespace)

lemma GetPodServices_ok:
  assumes "indexErr s = None" and "holdsOnly isService s"
  shows "GetPodServices s pod = Return (selectingServices s pod, None)"
  using assms
  by (simp add: GetPodServices_def storeServicesNamespacer_List_ok servicesLoop_filter
      selectingServices_def)

lemma GetPodControllers_ok:
  assumes "len (Labels (PodObjectMeta pod)) \<noteq> 0" and "indexErr s = None"
    and "holdsOnly isReplicationController s"
  shows "GetPodControllers s pod =
         (if matchingControllers s pod = []
          then Return ([], Some (NoMatchingOwner (Name (PodObjectMeta pod))
                 (Namespace (PodObjectMeta pod)) (Labels (PodObjectMeta pod))))
          else Return (matchingControllers s pod, None))"
  using assms
  by (simp add: GetPodControllers_def Index_def ListByNamespaceIndex_ok controllersLoop_filter
      holdsOnly_inNamespace matchingControllers_def)

subsection \<open>Evaluation on the scenario objects\<close>

lemma selects_eval [simp]:
  "selects None pod"
  "selects (Some []) pod"
  "selects (Some [(k, v)]) pod \<longleftrightarrow> lookup (Labels (PodObjectMeta pod)) k = Some v"
  by (simp_all add: selects_def AsSelectorPreValidated_def Matches_def)

lemma lookup_eval [simp]:
  "lookup None k = None"
  "lookup (Some kvs) k = map_of kvs k"
  by (simp_all add: lookup_def)

lemma holdsOnly_scenarios:
  "holdsOnly isPod pod_store"
  "holdsOnly isService service_store"
  "holdsOnly isReplicationController rc_store"
  by (simp_all add: holdsOnly_def snapshot_def)

lemma selectingServices_scenario:
  "selectingServices service_store pod_p1 = [svcA, svcE]"
  "selectingServices service_store pod_p0 = [svcE]"
  by (simp_all add: selectingServices_def snapshot_def inNamespace_def)

lemma matchingControllers_scenario:
  "matchingControllers rc_store pod_p3 = [rcA, rcB]"
  "matchingControllers rc_store pod_p1 = []"
  by (simp_all add: matchingControllers_def snapshot_def inNamespace_def derived_selector_Empty)

section \<open>Kind A: services selecting a pod\<close>

text \<open>
  C1. On a service store whose namespace enumeration succeeds, \<^verbatim>\<open>GetPodServices\<close>
  returns, for every pod, exactly the services of the pod's namespace whose selector
  field is not nil and whose selector matches the pod's labels, in store order and with
  a nil error; when there is none it returns the empty list, still with a nil error.
  A failing enumeration is the subject of C10 and a store holding other kinds of C7.
\<close>

theorem GetPodServices_exact:
  assumes "indexErr s = None" and "holdsOnly isService s"
  shows "GetPodServices s pod = Return (selectingServices s pod, None) \<and>
         (selectingServices s pod = [] \<longrightarrow> GetPodServices s pod = Return ([], None))"
  using GetPodServices_ok [OF assms] by simp

theorem GetPodServices_exact_witness:
  "indexErr service_store = None \<and> holdsOnly isService service_store \<and>
   GetPodServices service_store pod_p1 = Return ([svcA, svcE], None) \<and>
   GetPodServices service_store pod_p2 = Return ([svcC], None) \<and>
   GetPodServices service_store pod_p3 = Return ([svcE], None)"
proof -
  have h1: "indexErr service_store = None" by simp
  have h2: "holdsOnly isService service_store" by (rule holdsOnly_scenarios)
  have "selectingServices service_store pod_p1 = [svcA, svcE]"
    and "selectingServices service_store pod_p2 = [svcC]"
    and "selectingServices service_store pod_p3 = [svcE]"
    by (simp_all add: selectingServices_def snapshot_def inNamespace_def)
  with GetPodServices_exact [OF h1 h2, of pod_p1] GetPodServices_exact [OF h1 h2, of pod_p2]
    GetPodServices_exact [OF h1 h2, of pod_p3] h1 h2
  show ?thesis by simp
qed

text \<open>
  C5. Whatever the store and the pod, a service whose selector field is nil is never
  among the services that \<^verbatim>\<open>GetPodServices\<close> returns.
\<close>

theorem GetPodServices_skips_nil_selector:
  assumes "GetPodServices s pod = Return (services, err)"
    and "ServiceSpecSelector c = None"
  shows "c \<notin> set services"
  using assms
  by (auto simp: GetPodServices_def servicesLoop_filter
      split: outcome.splits prod.splits option.splits)

theorem GetPodServices_skips_nil_selector_witness:
  "GetPodServices service_store pod_p1 = Return ([svcA, svcE], None) \<and>
   ServiceSpecSelector svcB = None \<and> svcB \<notin> set [svcA, svcE]"
proof -
  have r: "GetPodServices service_store pod_p1 = Return ([svcA, svcE], None)"
    using GetPodServices_ok [of service_store pod_p1]
    by (simp add: holdsOnly_scenarios selectingServices_scenario)
  have n: "ServiceSpecSelector svcB = None" by simp
  from GetPodServices_skips_nil_selector [OF r n] r n show ?thesis by simp
qed

text \<open>
  C6. On a service store whose namespace enumeration succeeds, a service of the pod's
  namespace whose selector field is present with zero requirements is among the services
  that \<^verbatim>\<open>GetPodServices\<close> returns, whatever the pod's labels (none at all included):
  the empty selector matches every label set.
\<close>

theorem GetPodServices_includes_empty_selector:
  assumes "indexErr s = None" and "holdsOnly isService s"
    and "ServiceObj c \<in> set (snapshot s)"
    and "Namespace (ServiceObjectMeta c) = Namespace (PodObjectMeta pod)"
    and "ServiceSpecSelector c = Some []"
  shows "\<exists>services. GetPodServices s pod = Return (services, None) \<and> c \<in> set services"
proof -
  from assms(3,4)
  have "ServiceObj c \<in> set (inNamespace (Namespace (PodObjectMeta pod)) (snapshot s))"
    by (simp add: inNamespace_def)
  then have "c \<in> set (servicesOf (inNamespace (Namespace (PodObjectMeta pod)) (snapshot s)))"
    by (rule servicesOf_mem)
  with assms(5) have "c \<in> set (selectingServices s pod)"
    by (simp add: selectingServices_def)
  with GetPodServices_ok [OF assms(1,2)] show ?thesis by simp
qed

theorem GetPodServices_includes_empty_selector_witness:
  "indexErr service_store = None \<and> holdsOnly isService service_store \<and>
   ServiceObj svcE \<in> set (snapshot service_store) \<and>
   Namespace (ServiceObjectMeta svcE) = Namespace (PodObjectMeta pod_p0) \<and>
   ServiceSpecSelector svcE = Some [] \<and> len (Labels (PodObjectMeta pod_p0)) = 0 \<and>
   (\<exists>services. GetPodServices service_store pod_p0 = Return (services, None) \<and>
                svcE \<in> set services)"
proof -
  have h1: "indexErr service_store = None" by simp
  have h2: "holdsOnly isService service_store" by (rule holdsOnly_scenarios)
  have h3: "ServiceObj svcE \<in> set (snapshot service_store)" by (simp add: snapshot_def)
  have h4: "Namespace (ServiceObjectMeta svcE) = Namespace (PodObjectMeta pod_p0)" by simp
  have h5: "ServiceSpecSelector svcE = Some []" by simp
  have h6: "len (Labels (PodObjectMeta pod_p0)) = 0" by (simp add: len_def)
  from GetPodServices_includes_empty_selector [OF h1 h2 h3 h4 h5] h1 h2 h3 h4 h5 h6
  show ?thesis by blast
qed

section \<open>Kind B: controllers owning a pod\<close>

text \<open>
  C2. For a pod with at least one label, on a controller store whose namespace index
  answers, \<^verbatim>\<open>GetPodControllers\<close> fails with the error naming the pod, its namespace and
  its labels exactly when no controller of the pod's namespace matches, and then returns
  no controller; otherwise it returns every matching controller, however many, with a
  nil error.
\<close>

theorem GetPodControllers_NoMatchingOwner_iff:
  assumes "len (Labels (PodObjectMeta pod)) \<noteq> 0" and "indexErr s = None"
    and "holdsOnly isReplicationController s"
  shows "(failsWith (GetPodControllers s pod)
            (NoMatchingOwner (Name (PodObjectMeta pod)) (Namespace (PodObjectMeta pod))
               (Labels (PodObjectMeta pod)))
          \<longleftrightarrow> matchingControllers s pod = []) \<and>
         (matchingControllers s pod = [] \<longrightarrow>
            GetPodControllers s pod =
              Return ([], Some (NoMatchingOwner (Name (PodObjectMeta pod))
                (Namespace (PodObjectMeta pod)) (Labels (PodObjectMeta pod))))) \<and>
         (matchingControllers s pod \<noteq> [] \<longrightarrow>
            GetPodControllers s pod = Return (matchingControllers s pod, None))"
  using GetPodControllers_ok [OF assms] by (simp add: failsWith_def)

theorem GetPodControllers_NoMatchingOwner_iff_witness:
  "len (Labels (PodObjectMeta pod_p3)) \<noteq> 0 \<and> len (Labels (PodObjectMeta pod_p1)) \<noteq> 0 \<and>
   indexErr rc_store = None \<and> holdsOnly isReplicationController rc_store \<and>
   GetPodControllers rc_store pod_p3 = Return ([rcA, rcB], None) \<and>
   GetPodControllers rc_store pod_p1 =
     Return ([], Some (NoMatchingOwner ''p1'' ''ns1'' (Some [(''app'', ''x'')])))"
proof -
  have l3: "len (Labels (PodObjectMeta pod_p3)) \<noteq> 0" by (simp add: len_def)
  have l1: "len (Labels (PodObjectMeta pod_p1)) \<noteq> 0" by (simp add: len_def)
  have h1: "indexErr rc_store = None" by simp
  have h2: "holdsOnly isReplicationController rc_store" by (rule holdsOnly_scenarios)
  from GetPodControllers_NoMatchingOwner_iff [OF l3 h1 h2]
    GetPodControllers_NoMatchingOwner_iff [OF l1 h1 h2] l3 l1 h1 h2
  show ?thesis by (simp add: matchingControllers_scenario)
qed

text \<open>
  C3. For a pod without labels (a nil or an empty label map), \<^verbatim>\<open>GetPodControllers\<close>
  returns no controller and the error that the pod has no labels. The result is the same
  for every store, one whose every operation fails and one holding other kinds included:
  the store is not consulted.
\<close>

theorem GetPodControllers_no_labels:
  assumes "len (Labels (PodObjectMeta pod)) = 0"
  shows "GetPodControllers s pod =
         Return ([], Some (NoLabelsOnSubject (Name (PodObjectMeta pod))))"
  using assms by (simp add: GetPodControllers_def)

theorem GetPodControllers_no_labels_witness:
  "len (Labels (PodObjectMeta pod_p0)) = 0 \<and>
   GetPodControllers failing_store pod_p0 = Return ([], Some (NoLabelsOnSubject ''p0'')) \<and>
   GetPodControllers mixed_store pod_p0 = Return ([], Some (NoLabelsOnSubject ''p0''))"
proof -
  have h: "len (Labels (PodObjectMeta pod_p0)) = 0" by (simp add: len_def)
  from GetPodControllers_no_labels [OF h, of failing_store]
    GetPodControllers_no_labels [OF h, of mixed_store] h
  show ?thesis by simp
qed

text \<open>
  C4. Whatever the store and the pod, a controller whose derived selector is empty (its
  selector field is nil or has zero requirements) is never among the controllers that
  \<^verbatim>\<open>GetPodControllers\<close> returns.
\<close>

theorem GetPodControllers_skips_empty_selector:
  assumes "GetPodControllers s pod = Return (controllers, err)"
    and "Empty (AsSelectorPreValidated (RCSpecSelector c))"
  shows "c \<notin> set controllers"
proof
  assume c: "c \<in> set controllers"
  then have "controllers \<noteq> []" by auto
  with assms(1) obtain items where "controllersLoop pod items [] = Return controllers"
    by (auto simp: GetPodControllers_def Let_def
        split: if_splits prod.splits option.splits outcome.splits)
  from controllersLoop_sound [OF this c] assms(2) show False by simp
qed

theorem GetPodControllers_skips_empty_selector_witness:
  "GetPodControllers rc_store pod_p3 = Return ([rcA, rcB], None) \<and>
   Empty (AsSelectorPreValidated (RCSpecSelector rcE)) \<and>
   Empty (AsSelectorPreValidated (RCSpecSelector rcN)) \<and>
   rcE \<notin> set [rcA, rcB] \<and> rcN \<notin> set [rcA, rcB]"
proof -
  have r: "GetPodControllers rc_store pod_p3 = Return ([rcA, rcB], None)"
    using GetPodControllers_ok [of pod_p3 rc_store]
    by (simp add: holdsOnly_scenarios matchingControllers_scenario len_def)
  have e: "Empty (AsSelectorPreValidated (RCSpecSelector rcE))"
    by (simp add: derived_selector_Empty)
  have n: "Empty (AsSelectorPreValidated (RCSpecSelector rcN))"
    by (simp add: derived_selector_Empty)
  from GetPodControllers_skips_empty_selector [OF r e]
    GetPodControllers_skips_empty_selector [OF r n] r e n
  show ?thesis by simp
qed

section \<open>Store errors in the resolvers\<close>

text \<open>
  C10. When the namespace listing that \<^verbatim>\<open>GetPodServices\<close> calls returns an error, the
  resolver returns that error and a nil list, whatever list came with the error. When
  the index query that \<^verbatim>\<open>GetPodControllers\<close> issues for a labelled pod returns an
  error, the resolver returns that error and a nil list, whatever objects came with the
  error. Neither resolver ever returns an error together with a non-empty list.
\<close>

theorem resolvers_return_store_error:
  "(storeServicesNamespacer_List s (Namespace (PodObjectMeta pod)) Everything =
      Return (allServices, Some e)
    \<longrightarrow> GetPodServices s pod = Return ([], Some e)) \<and>
   (len (Labels (PodObjectMeta pod)) \<noteq> 0 \<and>
    Index s NamespaceIndex
      (ReplicationControllerObj
         \<lparr>RCObjectMeta = \<lparr>Name = [], Namespace = Namespace (PodObjectMeta pod), Labels = None\<rparr>,
          RCSpecSelector = None\<rparr>) = (items, Some e)
    \<longrightarrow> GetPodControllers s pod = Return ([], Some e)) \<and>
   (GetPodServices s pod = Return (services, Some e') \<longrightarrow> services = []) \<and>
   (GetPodControllers s pod = Return (controllers, Some e') \<longrightarrow> controllers = [])"
proof (intro conjI impI)
  assume "storeServicesNamespacer_List s (Namespace (PodObjectMeta pod)) Everything =
            Return (allServices, Some e)"
  then show "GetPodServices s pod = Return ([], Some e)"
    by (simp add: GetPodServices_def)
next
  assume "len (Labels (PodObjectMeta pod)) \<noteq> 0 \<and>
          Index s NamespaceIndex
            (ReplicationControllerObj
               \<lparr>RCObjectMeta = \<lparr>Name = [], Namespace = Namespace (PodObjectMeta pod),
                                Labels = None\<rparr>,
                RCSpecSelector = None\<rparr>) = (items, Some e)"
  then show "GetPodControllers s pod = Return ([], Some e)"
    by (simp add: GetPodControllers_def)
next
  assume "GetPodServices s pod = Return (services, Some e')"
  then show "services = []"
    by (auto simp: GetPodServices_def split: outcome.splits prod.splits option.splits)
next
  assume "GetPodControllers s pod = Return (controllers, Some e')"
  then show "controllers = []"
    by (auto simp: GetPodControllers_def Let_def
        split: if_splits outcome.splits prod.splits option.splits)
qed

theorem resolvers_return_store_error_witness:
  "storeServicesNamespacer_List failing_service_store (Namespace (PodObjectMeta pod_p1))
     Everything = Return ([svcA, svcB], Some (StoreUnavailable ''down'')) \<and>
   GetPodServices failing_service_store pod_p1 = Return ([], Some (StoreUnavailable ''down'')) \<and>
   len (Labels (PodObjectMeta pod_p3)) \<noteq> 0 \<and>
   Index failing_rc_store NamespaceIndex
     (ReplicationControllerObj
        \<lparr>RCObjectMeta = \<lparr>Name = [], Namespace = Namespace (PodObjectMeta pod_p3),
                         Labels = None\<rparr>,
         RCSpecSelector = None\<rparr>) =
     ([ReplicationControllerObj rcE, ReplicationControllerObj rcA],
      Some (StoreUnavailable ''down'')) \<and>
   GetPodControllers failing_rc_store pod_p3 = Return ([], Some (StoreUnavailable ''down''))"
proof -
  have a: "storeServicesNamespacer_List failing_service_store (Namespace (PodObjectMeta pod_p1))
             Everything = Return ([svcA, svcB], Some (StoreUnavailable ''down''))"
    by (simp add: storeServicesNamespacer_List_def ListAllByNamespace_def
        ListByNamespaceIndex_def)
  have l: "len (Labels (PodObjectMeta pod_p3)) \<noteq> 0" by (simp add: len_def)
  have b: "Index failing_rc_store NamespaceIndex
             (ReplicationControllerObj
                \<lparr>RCObjectMeta = \<lparr>Name = [], Namespace = Namespace (PodObjectMeta pod_p3),
                                 Labels = None\<rparr>,
                 RCSpecSelector = None\<rparr>) =
           ([ReplicationControllerObj rcE, ReplicationControllerObj rcA],
            Some (StoreUnavailable ''down''))"
    by (simp add: Index_def ListByNamespaceIndex_def)
  from resolvers_return_store_error
         [of failing_service_store pod_p1 "[svcA, svcB]" "StoreUnavailable ''down''"]
  have "GetPodServices failing_service_store pod_p1 =
          Return ([], Some (StoreUnavailable ''down''))"
    using a by blast
  moreover from resolvers_return_store_error
         [of failing_rc_store pod_p3 _ "StoreUnavailable ''down''"
             "[ReplicationControllerObj rcE, ReplicationControllerObj rcA]"]
  have "GetPodControllers failing_rc_store pod_p3 =
          Return ([], Some (StoreUnavailable ''down''))"
    using l b by blast
  ultimately show ?thesis using a l b by simp
qed

section \<open>Typed listing and lookup\<close>

text \<open>
  C8. When the store's lookup does not fail, \<^verbatim>\<open>Get\<close> of a namespacer for namespace
  \<open>ns\<close> and name \<open>n\<close> is decided by the entry under the key \<open>ns @ ''/'' @ n\<close>: without
  such an entry it returns the not-found error for its resource and \<open>n\<close>; with a pod
  (for the pod namespacer) or a service (for the service namespacer) stored there it
  returns that object and a nil error.
\<close>

theorem Get_composite_key:
  assumes "getByKeyErr s = None"
  shows "(map_of (entries s) (ns @ ''/'' @ n) = None \<longrightarrow>
            storePodsNamespacer_Get s ns n = Return (None, Some (NotFound ''pod'' n)) \<and>
            storeServicesNamespacer_Get s ns n = Return (None, Some (NotFound ''service'' n))) \<and>
         (\<forall>p. map_of (entries s) (ns @ ''/'' @ n) = Some (PodObj p) \<longrightarrow>
            storePodsNamespacer_Get s ns n = Return (Some p, None)) \<and>
         (\<forall>svc. map_of (entries s) (ns @ ''/'' @ n) = Some (ServiceObj svc) \<longrightarrow>
            storeServicesNamespacer_Get s ns n = Return (Some svc, None))"
  using assms
  by (simp add: storePodsNamespacer_Get_def storeServicesNamespacer_Get_def GetByKey_def)

theorem Get_composite_key_witness:
  "getByKeyErr pod_store = None \<and> getByKeyErr service_store = None \<and>
   map_of (entries pod_store) (''ns1'' @ ''/'' @ ''missing'') = None \<and>
   storePodsNamespacer_Get pod_store ''ns1'' ''missing'' =
     Return (None, Some (NotFound ''pod'' ''missing'')) \<and>
   storePodsNamespacer_Get pod_store ''ns1'' ''p3'' = Return (Some pod_p3, None) \<and>
   storePodsNamespacer_Get pod_store ''ns2'' ''p3'' =
     Return (None, Some (NotFound ''pod'' ''p3'')) \<and>
   storeServicesNamespacer_Get service_store ''ns2'' ''svcC'' = Return (Some svcC, None)"
proof -
  have h: "getByKeyErr pod_store = None" by simp
  have h': "getByKeyErr service_store = None" by simp
  from Get_composite_key [OF h, of "''ns1''" "''missing''"]
    Get_composite_key [OF h, of "''ns1''" "''p3''"]
    Get_composite_key [OF h, of "''ns2''" "''p3''"]
    Get_composite_key [OF h', of "''ns2''" "''svcC''"] h h'
  show ?thesis by simp
qed

text \<open>
  C9. On a pod store whose enumerations succeed, the whole-store listing returns exactly
  the pods whose labels satisfy the selector, and the listing of a namespace returns
  exactly those among them that are in the namespace, in the same order. Both are
  functions of the store contents and leave the store as it is, so a repeated call
  returns the same result.
\<close>

theorem List_namespace_restricts:
  assumes "listErr s = None" and "indexErr s = None" and "holdsOnly isPod s"
  shows "StoreToPodLister_List s selector =
           Return (podsOf (satisfying selector (snapshot s)), None) \<and>
         storePodsNamespacer_List s ns selector =
           Return (filter (\<lambda>p. Namespace (PodObjectMeta p) = ns)
                     (podsOf (satisfying selector (snapshot s))), None)"
proof
  from assms(3) have all: "list_all isPod (snapshot s)" by (simp add: holdsOnly_def)
  from assms(1) have "Indexer_List s = (snapshot s, None)"
    by (simp add: Indexer_List_def snapshot_def)
  then show "StoreToPodLister_List s selector =
               Return (podsOf (satisfying selector (snapshot s)), None)"
    by (simp add: StoreToPodLister_List_def ListAll_def listLoop_appendPod [OF all])
  show "storePodsNamespacer_List s ns selector =
          Return (filter (\<lambda>p. Namespace (PodObjectMeta p) = ns)
                    (podsOf (satisfying selector (snapshot s))), None)"
    using assms(2,3)
    by (simp add: storePodsNamespacer_List_def ListAllByNamespace_def ListByNamespaceIndex_ok
        listLoop_appendPod holdsOnly_inNamespace podsOf_inNamespace)
qed

theorem List_namespace_restricts_witness:
  "listErr pod_store = None \<and> indexErr pod_store = None \<and> holdsOnly isPod pod_store \<and>
   StoreToPodLister_List pod_store [(''app'', ''x'')] = Return ([pod_p1, pod_p2], None) \<and>
   storePodsNamespacer_List pod_store ''ns1'' [(''app'', ''x'')] = Return ([pod_p1], None)"
proof -
  have h1: "listErr pod_store = None" by simp
  have h2: "indexErr pod_store = None" by simp
  have h3: "holdsOnly isPod pod_store" by (rule holdsOnly_scenarios)
  have "podsOf (satisfying [(''app'', ''x'')] (snapshot pod_store)) = [pod_p1, pod_p2]"
    by (simp add: satisfying_def snapshot_def Matches_def)
  with List_namespace_restricts [OF h1 h2 h3, of "[(''app'', ''x'')]" "''ns1''"] h1 h2 h3
  show ?thesis by simp
qed

text \<open>
  C7, as the specification states it, fails: a pod lister over a store that also holds a
  service panics in \<^verbatim>\<open>List\<close>, and \<^verbatim>\<open>Get\<close> of the service's key panics too.
\<close>

theorem foreign_kind_counterexample:
  "StoreToPodLister_List mixed_store Everything = Panic \<and>
   storePodsNamespacer_Get mixed_store ''ns1'' ''svcA'' = Panic"
  by (simp add: StoreToPodLister_List_def ListAll_def Indexer_List_def
      storePodsNamespacer_Get_def GetByKey_def)

text \<open>
  C7, amended. The listers assert the kind of what the store hands them without a check
  ("The Stores must contain only the expected type"). With a store whose enumeration
  succeeds, \<^verbatim>\<open>List\<close> panics when some entry of another kind has labels that satisfy the
  selector; when no such entry exists it returns the pods that satisfy the selector,
  having passed over the entries that do not. With a store whose lookup succeeds,
  \<^verbatim>\<open>Get\<close> panics when the entry under the composite key is of another kind. No
  type-mismatch error is returned.
\<close>

theorem foreign_kind_panics:
  "(listErr s = None \<and>
    list_ex (\<lambda>m. \<not> isPod m \<and> Matches selector (Labels (Accessor m))) (snapshot s)
    \<longrightarrow> StoreToPodLister_List s selector = Panic) \<and>
   (listErr s = None \<and>
    \<not> list_ex (\<lambda>m. \<not> isPod m \<and> Matches selector (Labels (Accessor m))) (snapshot s)
    \<longrightarrow> StoreToPodLister_List s selector =
          Return (podsOf (satisfying selector (snapshot s)), None)) \<and>
   (getByKeyErr s = None \<and> map_of (entries s) (ns @ ''/'' @ n) = Some m \<and> \<not> isPod m
    \<longrightarrow> storePodsNamespacer_Get s ns n = Panic)"
proof (intro conjI impI)
  assume "listErr s = None \<and>
          list_ex (\<lambda>m. \<not> isPod m \<and> Matches selector (Labels (Accessor m))) (snapshot s)"
  then show "StoreToPodLister_List s selector = Panic"
    by (simp add: StoreToPodLister_List_def ListAll_def Indexer_List_def snapshot_def
        listLoop_appendPod_Panic)
next
  assume a: "listErr s = None \<and>
          \<not> list_ex (\<lambda>m. \<not> isPod m \<and> Matches selector (Labels (Accessor m))) (snapshot s)"
  then have "list_all (\<lambda>m. isPod m \<or> \<not> Matches selector (Labels (Accessor m))) (snapshot s)"
    by (auto simp: list_all_iff list_ex_iff)
  from listLoop_appendPod_skips [OF this] a
  show "StoreToPodLister_List s selector =
          Return (podsOf (satisfying selector (snapshot s)), None)"
    by (simp add: StoreToPodLister_List_def ListAll_def Indexer_List_def snapshot_def)
next
  assume "getByKeyErr s = None \<and> map_of (entries s) (ns @ ''/'' @ n) = Some m \<and> \<not> isPod m"
  then show "storePodsNamespacer_Get s ns n = Panic"
    by (cases m) (simp_all add: storePodsNamespacer_Get_def GetByKey_def)
qed

theorem foreign_kind_panics_witness:
  "listErr mixed_store = None \<and> getByKeyErr mixed_store = None \<and>
   list_ex (\<lambda>m. \<not> isPod m \<and> Matches Everything (Labels (Accessor m))) (snapshot mixed_store) \<and>
   StoreToPodLister_List mixed_store Everything = Panic \<and>
   \<not> list_ex (\<lambda>m. \<not> isPod m \<and> Matches [(''app'', ''x'')] (Labels (Accessor m)))
       (snapshot mixed_store) \<and>
   StoreToPodLister_List mixed_store [(''app'', ''x'')] = Return ([pod_p1], None) \<and>
   map_of (entries mixed_store) (''ns1'' @ ''/'' @ ''svcA'') = Some (ServiceObj svcA) \<and>
   \<not> isPod (ServiceObj svcA) \<and>
   storePodsNamespacer_Get mixed_store ''ns1'' ''svcA'' = Panic"
proof -
  have a: "list_ex (\<lambda>m. \<not> isPod m \<and> Matches Everything (Labels (Accessor m)))
             (snapshot mixed_store)"
    by (simp add: snapshot_def)
  have b: "\<not> list_ex (\<lambda>m. \<not> isPod m \<and> Matches [(''app'', ''x'')] (Labels (Accessor m)))
               (snapshot mixed_store)"
    by (simp add: snapshot_def Matches_def)
  have c: "podsOf (satisfying [(''app'', ''x'')] (snapshot mixed_store)) = [pod_p1]"
    by (simp add: satisfying_def snapshot_def Matches_def)
  have d: "map_of (entries mixed_store) (''ns1'' @ ''/'' @ ''svcA'') = Some (ServiceObj svcA)"
    by simp
  from foreign_kind_panics [of mixed_store Everything "''ns1''" "''svcA''" "ServiceObj svcA"]
    foreign_kind_panics [of mixed_store "[(''app'', ''x'')]" "''ns1''" "''svcA''" "ServiceObj svcA"]
    a b c d
  show ?thesis by simp
qed

end
